theory Spec2Isabelle
  imports Complex_Main "HOL-Library.AList"
begin

section \<open>The DataCite REST client (datacite/rest_client.py)\<close>

subsection \<open>Values\<close>

text \<open>
  A Python \<open>str\<close> is a sequence of Unicode code points, so a string is a list of
  code points (natural numbers). \<open>ustr\<close> writes an ASCII literal of the source as
  such a list.
\<close>

type_synonym pystr = "nat list"

definition ustr :: "string \<Rightarrow> pystr" where
  "ustr cs = map of_char cs"

text \<open>
  The values a decoded response body can hold: what a JSON document decodes to, and a
  plain \<open>str\<close> for the text and XML endpoints. A \<open>dict\<close> is an association list
  in insertion order with distinct keys. (Floating-point JSON numbers are left out;
  no operation computes with a number.)
\<close>

datatype pyval =
    PNone
  | PBool bool
  | PNum int
  | PStr pystr
  | PList "pyval list"
  | PDict "(pystr \<times> pyval) list"

subsection \<open>Errors\<close>

text \<open>
  Modelled from the spec: the module \<open>errors\<close> (class \<open>DataCiteError\<close> and its
  \<open>factory\<close>) is not among the sources. The spec (sections 6 and 7) describes the
  classifier as a collaborator that, given a status code and a response body, produces one
  of a fixed set of classified error kinds, the error carrying the original status code and
  the raw body. Which code gives which kind is not specified, so the classification is a
  parameter (\<open>classify\<close>).
\<close>

datatype api_kind = Unauthorized | NotFound | Conflict | ServerError | UnknownAPIError

datatype error =
    NameError string
  | UnboundLocalError string
  | ValueError
  | TypeError
  | KeyError pystr
  | AttributeError string
  | IndexError
  | DataCiteError api_kind int pyval

text \<open>\<open>UnboundLocalError\<close> is a subclass of \<open>NameError\<close> in Python.\<close>

fun is_NameError :: "error \<Rightarrow> bool" where
  "is_NameError (NameError _) = True"
| "is_NameError (UnboundLocalError _) = True"
| "is_NameError _ = False"

definition factory :: "(int \<Rightarrow> pyval \<Rightarrow> api_kind) \<Rightarrow> int \<Rightarrow> pyval \<Rightarrow> error" where
  "factory classify err_code body = DataCiteError (classify err_code body) err_code body"

subsection \<open>Client configuration and construction\<close>

datatype timeout = Scalar real | ConnectRead real real

record client =
  username :: "pystr option"
  password :: "pystr option"
  prefix :: "pystr option"
  api_ver :: pystr
  api_url :: pystr
  timeout :: "timeout option"

text \<open>
  \<open>__init__\<close>. The arguments \<open>username\<close>, \<open>password\<close>, \<open>url\<close>, \<open>prefix\<close> and
  \<open>timeout\<close> default to \<open>None\<close>. \<open>url or '...'\<close> takes the default when \<open>url\<close> is
  \<open>None\<close> or the empty string. \<open>self.api_url[-1]\<close> raises \<open>IndexError\<close> on an
  empty string; that branch is kept. Code point 47 is \<open>/\<close>.
\<close>

definition init ::
  "pystr option \<Rightarrow> pystr option \<Rightarrow> pystr option \<Rightarrow> pystr option \<Rightarrow> bool \<Rightarrow> pystr
     \<Rightarrow> timeout option \<Rightarrow> error + client" where
  "init username' password' url prefix' test_mode api_ver' timeout' =
     (let api_url0 =
            (if test_mode then ustr ''https://api.test.datacite.org/''
             else (case url of
                     None \<Rightarrow> ustr ''https://api.datacite.org/''
                   | Some u \<Rightarrow> if u \<noteq> [] then u else ustr ''https://api.datacite.org/''))
      in if api_url0 = [] then Inl IndexError
         else Inr \<lparr> username = username', password = password', prefix = prefix',
                    api_ver = api_ver',
                    api_url = (if last api_url0 \<noteq> 47 then api_url0 @ ustr ''/'' else api_url0),
                    timeout = timeout' \<rparr>)"

text \<open>
  The spec's wording of the normalised form, "ending in exactly one trailing separator":
  the last character is \<open>/\<close> and the character before it, if there is one, is not.
\<close>

definition single_trailing_slash :: "pystr \<Rightarrow> bool" where
  "single_trailing_slash u =
     (u \<noteq> [] \<and> last u = 47 \<and> (butlast u = [] \<or> last (butlast u) \<noteq> 47))"

subsection \<open>Strings: the builtin methods the client calls\<close>

definition CRLF :: pystr where
  "CRLF = [13, 10]"

text \<open>\<open>sep.join(parts)\<close>.\<close>

fun str_join :: "pystr \<Rightarrow> pystr list \<Rightarrow> pystr" where
  "str_join sep [] = []"
| "str_join sep [x] = x"
| "str_join sep (x # y # ys) = x @ sep @ str_join sep (y # ys)"

text \<open>
  \<open>'%s' % v\<close> for an argument that is a \<open>str\<close> or \<open>None\<close>: the string itself, or the
  text \<open>None\<close>.
\<close>

definition percent_s :: "pystr option \<Rightarrow> pystr" where
  "percent_s v = (case v of None \<Rightarrow> ustr ''None'' | Some s \<Rightarrow> s)"

text \<open>
  The characters \<open>str.splitlines\<close> treats as line boundaries (Python 3): LF, CR, VT,
  FF, FS, GS, RS, NEL (U+0085), LS (U+2028) and PS (U+2029).
\<close>

definition is_linebreak :: "nat \<Rightarrow> bool" where
  "is_linebreak c =
     (c = 10 \<or> c = 13 \<or> c = 11 \<or> c = 12 \<or> c = 28 \<or> c = 29 \<or> c = 30 \<or> c = 133
      \<or> c = 8232 \<or> c = 8233)"

text \<open>
  \<open>str.splitlines()\<close>, line ends dropped. \<open>cur\<close> is the line read so far. A
  boundary closes the current line, also an empty one; CR immediately followed by LF is
  one boundary. At the end of the string a line is produced only if it is not empty, so
  the empty string has no lines and a final boundary does not open a further line.
\<close>

fun splitlines_from :: "pystr \<Rightarrow> pystr \<Rightarrow> pystr list" where
  "splitlines_from cur [] = (if cur = [] then [] else [cur])"
| "splitlines_from cur (c # cs) =
     (if is_linebreak c then
        (case cs of
           [] \<Rightarrow> cur # splitlines_from [] []
         | d # ds \<Rightarrow>
             if c = 13 \<and> d = 10 then cur # splitlines_from [] ds
             else cur # splitlines_from [] (d # ds))
      else splitlines_from (cur @ [c]) cs)"

definition splitlines :: "pystr \<Rightarrow> pystr list" where
  "splitlines s = splitlines_from [] s"

text \<open>
  \<open>s.split(sep, 1)\<close> for a one-character separator: split at the first occurrence only;
  a string without the separator gives the one-element list \<open>[s]\<close>.
\<close>

definition split1 :: "nat \<Rightarrow> pystr \<Rightarrow> pystr list" where
  "split1 sep s =
     (case dropWhile (\<lambda>c. c \<noteq> sep) s of
        [] \<Rightarrow> [s]
      | _ # rest \<Rightarrow> [takeWhile (\<lambda>c. c \<noteq> sep) s, rest])"

text \<open>\<open>s.split(sep)\<close> for a one-character separator: split at every occurrence.\<close>

fun split_from :: "nat \<Rightarrow> pystr \<Rightarrow> pystr \<Rightarrow> pystr list" where
  "split_from sep cur [] = [cur]"
| "split_from sep cur (c # cs) =
     (if c = sep then cur # split_from sep [] cs else split_from sep (cur @ [c]) cs)"

definition split_all :: "nat \<Rightarrow> pystr \<Rightarrow> pystr list" where
  "split_all sep s = split_from sep [] s"

text \<open>
  \<open>v[key]\<close> with a string key: a \<open>dict\<close> looks the key up (\<open>KeyError\<close> when it is
  missing); every other value raises \<open>TypeError\<close> (a \<open>str\<close> or \<open>list\<close> wants an
  integer index, the others are not subscriptable).
\<close>

fun subscript :: "pyval \<Rightarrow> pystr \<Rightarrow> error + pyval" where
  "subscript (PDict kvs) key =
     (case map_of kvs key of None \<Rightarrow> Inl (KeyError key) | Some v \<Rightarrow> Inr v)"
| "subscript _ key = Inl TypeError"

subsection \<open>The transport\<close>

text \<open>
  Modelled from the spec: the module \<open>request\<close> (class \<open>DataCiteRequest\<close>) is not among
  the sources. By the spec's transport contract (sections 2 and 6) it performs one HTTP
  request (method, path, body, headers) against the base URL with the credentials and
  timeout it was built with, and returns a status code plus the decoded body (JSON for
  the structured DOI endpoints, raw text or XML for the others), which the client reads as
  \<open>r.code\<close> and \<open>r.data\<close>. The remote service is a parameter: a function from the
  request to the response. Every request made is appended to the log \<open>sent\<close>.
\<close>

datatype http_method = GET | POST | DELETE

record datacite_request =
  base_url :: pystr
  req_username :: "pystr option"
  req_password :: "pystr option"
  default_params :: "(pystr \<times> pystr) list"
  req_timeout :: "timeout option"

record http_request =
  requester :: datacite_request
  req_method :: http_method
  req_url :: pystr
  req_body :: "pystr option"
  req_headers :: "(pystr \<times> pystr) list option"

record response =
  code :: int
  data :: pyval

record collaborators =
  transport :: "http_request \<Rightarrow> response"
  classify :: "int \<Rightarrow> pyval \<Rightarrow> api_kind"

text \<open>The client object and the log of the requests sent so far.\<close>

record state =
  self :: client
  sent :: "http_request list"

definition perform ::
  "collaborators \<Rightarrow> datacite_request \<Rightarrow> http_method \<Rightarrow> pystr \<Rightarrow> pystr option
     \<Rightarrow> (pystr \<times> pystr) list option \<Rightarrow> state \<Rightarrow> response \<times> state" where
  "perform env r m u b h st =
     (let req = \<lparr> requester = r, req_method = m, req_url = u, req_body = b, req_headers = h \<rparr>
      in (transport env req, st\<lparr> sent := sent st @ [req] \<rparr>))"

definition r_get ::
  "collaborators \<Rightarrow> datacite_request \<Rightarrow> pystr \<Rightarrow> (pystr \<times> pystr) list option \<Rightarrow> state
     \<Rightarrow> response \<times> state" where
  "r_get env r u h st = perform env r GET u None h st"

definition r_post ::
  "collaborators \<Rightarrow> datacite_request \<Rightarrow> pystr \<Rightarrow> pystr option
     \<Rightarrow> (pystr \<times> pystr) list option \<Rightarrow> state \<Rightarrow> response \<times> state" where
  "r_post env r u b h st = perform env r POST u b h st"

definition r_delete ::
  "collaborators \<Rightarrow> datacite_request \<Rightarrow> pystr \<Rightarrow> state \<Rightarrow> response \<times> state" where
  "r_delete env r u st = perform env r DELETE u None None st"

text \<open>\<open>_request_factory\<close>.\<close>

definition request_factory :: "client \<Rightarrow> datacite_request" where
  "request_factory c =
     \<lparr> base_url = api_url c, req_username = username c, req_password = password c,
       default_params = [], req_timeout = timeout c \<rparr>"

text \<open>The \<open>else\<close> branch every operation ends with: \<open>raise DataCiteError.factory(r.code, r.data)\<close>.\<close>

definition raise_api :: "collaborators \<Rightarrow> response \<Rightarrow> error" where
  "raise_api env r = factory (classify env) (code r) (data r)"


subsection \<open>Operations\<close>

text \<open>
  Each operation takes the client with the request log and returns what the method returns
  (\<open>Inr\<close>) or the exception it raises (\<open>Inl\<close>), together with the client and log
  afterwards. DOI, location and metadata arguments are strings.
\<close>

definition doi_get :: "collaborators \<Rightarrow> pystr \<Rightarrow> state \<Rightarrow> (error + pyval) \<times> state" where
  "doi_get env doi st =
     (let (r, st') = r_get env (request_factory (self st)) (ustr ''dois/'' @ doi) None st
      in if code r = 200 then
           (case subscript (data r) (ustr ''attributes'') of
              Inl e \<Rightarrow> (Inl e, st')
            | Inr attributes \<Rightarrow> (subscript attributes (ustr ''url''), st'))
         else (Inl (raise_api env r), st'))"

text \<open>
  Name resolution in \<open>draft_doi\<close>. The body assigns \<open>doi\<close> (line 100), so \<open>doi\<close> is
  a local variable of the function, unbound until that assignment has run; reading an
  unbound local raises \<open>UnboundLocalError\<close>. The body never assigns \<open>location\<close> and
  has no such parameter, so \<open>location\<close> is read as a global; the module binds only
  \<open>absolute_import\<close>, \<open>print_function\<close>, \<open>DataCiteError\<close>, \<open>DataCiteRequest\<close> and
  \<open>DataCiteRESTClient\<close>, and there is no builtin of that name, so the read raises
  \<open>NameError\<close>.
\<close>

definition load_fast :: "string \<Rightarrow> 'a option \<Rightarrow> error + 'a" where
  "load_fast name slot = (case slot of None \<Rightarrow> Inl (UnboundLocalError name) | Some v \<Rightarrow> Inr v)"

definition global_location :: "error + pystr option" where
  "global_location = Inl (NameError ''location'')"

text \<open>
  \<open>draft_doi\<close>, \<open>new_doi\<close> being a string or \<open>None\<close> (the default). The first part
  is lines 91 to 101: it yields the locals \<open>doi\<close> and \<open>data\<close> as they stand before
  line 103 (neither is read afterwards), or the exception raised. \<open>if new_doi\<close> is false
  for \<open>None\<close> and for the empty string. \<open>self.prefix + '/' + new_doi\<close> raises
  \<open>TypeError\<close> when the prefix is \<open>None\<close>. In line 103 \<open>'doi=%s' % new_doi\<close> is
  evaluated before \<open>location\<close> is read, and cannot fail.
\<close>

definition draft_doi_locals ::
  "client \<Rightarrow> pystr option \<Rightarrow> error + (pystr option \<times> pyval)" where
  "draft_doi_locals c new_doi =
     (let doi0 = (None :: pystr option);
          data0 = PDict [(ustr ''data'', PDict [(ustr ''attributes'',
                    PDict [(ustr ''prefix'',
                            (case prefix c of None \<Rightarrow> PNone | Some p \<Rightarrow> PStr p))])])]
      in case new_doi of
           None \<Rightarrow> Inr (doi0, data0)
         | Some nd \<Rightarrow>
             if nd = [] then Inr (doi0, data0)
             else
               (case (if 47 \<in> set nd then
                        (case load_fast ''doi'' doi0 of
                           Inl e \<Rightarrow> Inl e
                         | Inr doi \<Rightarrow>
                             (case split_all 47 doi of
                                [] \<Rightarrow> Inl IndexError
                              | s0 # _ \<Rightarrow>
                                  if Some s0 \<noteq> prefix c then Inl ValueError else Inr doi0))
                      else
                        (case prefix c of
                           None \<Rightarrow> Inl TypeError
                         | Some p \<Rightarrow> Inr (Some (p @ ustr ''/'' @ nd))))
                of Inl e \<Rightarrow> Inl e
                 | Inr doi1 \<Rightarrow>
                     Inr (doi1, PDict [(ustr ''data'', PDict [(ustr ''attributes'',
                                 PDict [(ustr ''doi'', PStr nd)])])])))"

definition draft_doi ::
  "collaborators \<Rightarrow> pystr option \<Rightarrow> state \<Rightarrow> (error + pyval) \<times> state" where
  "draft_doi env new_doi st =
     (let headers = [(ustr ''Content-Type'', ustr ''content-type: application/vnd.api+json'')]
      in case draft_doi_locals (self st) new_doi of
           Inl e \<Rightarrow> (Inl e, st)
         | Inr (doi, data') \<Rightarrow>
             (case global_location of
                Inl e \<Rightarrow> (Inl e, st)
              | Inr location \<Rightarrow>
                  (let body = str_join CRLF [ustr ''doi='' @ percent_s new_doi,
                                             ustr ''url='' @ percent_s location];
                       (r, st') = r_post env (request_factory (self st)) (ustr ''doi'')
                                    (Some body) (Some headers) st
                   in if code r = 201 then (Inr (data r), st')
                      else (Inl (raise_api env r), st'))))"

definition doi_post ::
  "collaborators \<Rightarrow> pystr \<Rightarrow> pystr \<Rightarrow> state \<Rightarrow> (error + pyval) \<times> state" where
  "doi_post env new_doi location st =
     (let headers = [(ustr ''Content-Type'', ustr ''text/plain;charset=UTF-8'')];
          body = str_join CRLF [ustr ''doi='' @ percent_s (Some new_doi),
                                ustr ''url='' @ percent_s (Some location)];
          (r, st') = r_post env (request_factory (self st)) (ustr ''doi'')
                       (Some body) (Some headers) st
      in if code r = 201 then (Inr (data r), st')
         else (Inl (raise_api env r), st'))"

definition metadata_get :: "collaborators \<Rightarrow> pystr \<Rightarrow> state \<Rightarrow> (error + pyval) \<times> state" where
  "metadata_get env doi st =
     (let headers = [(ustr ''Accept'', ustr ''application/xml''),
                     (ustr ''Accept-Encoding'', ustr ''UTF-8'')];
          (r, st') = r_get env (request_factory (self st)) (ustr ''metadata/'' @ doi)
                       (Some headers) st
      in if code r = 200 then (Inr (data r), st')
         else (Inl (raise_api env r), st'))"

definition metadata_post :: "collaborators \<Rightarrow> pystr \<Rightarrow> state \<Rightarrow> (error + pyval) \<times> state" where
  "metadata_post env metadata st =
     (let headers = [(ustr ''Content-Type'', ustr ''application/xml;charset=UTF-8'')];
          (r, st') = r_post env (request_factory (self st)) (ustr ''metadata'')
                       (Some metadata) (Some headers) st
      in if code r = 201 then (Inr (data r), st')
         else (Inl (raise_api env r), st'))"

definition metadata_delete :: "collaborators \<Rightarrow> pystr \<Rightarrow> state \<Rightarrow> (error + pyval) \<times> state" where
  "metadata_delete env doi st =
     (let (r, st') = r_delete env (request_factory (self st)) (ustr ''metadata/'' @ doi) st
      in if code r = 200 then (Inr (data r), st')
         else (Inl (raise_api env r), st'))"

text \<open>
  The loop of \<open>media_get\<close> (lines 190 to 194). \<open>values\<close> is the dictionary built so
  far, in insertion order; \<open>values[mimetype] = url\<close> replaces the value of a key already
  there and appends a new key otherwise, which is \<open>AList.update\<close>. Unpacking into
  \<open>mimetype, url\<close> raises \<open>ValueError\<close> unless the list has exactly two elements;
  the exception leaves the loop and the method, and \<open>values\<close> is lost. Code point 61 is
  \<open>=\<close>.
\<close>

fun media_loop ::
  "(pystr \<times> pystr) list \<Rightarrow> pystr list \<Rightarrow> error + (pystr \<times> pystr) list" where
  "media_loop values [] = Inr values"
| "media_loop values (line # lines) =
     (case split1 61 line of
        [mimetype, url] \<Rightarrow> media_loop (AList.update mimetype url values) lines
      | _ \<Rightarrow> Inl ValueError)"

text \<open>
  What \<open>media_get\<close> does with \<open>r.data\<close> on status 200. Only a \<open>str\<close> among the
  values of \<open>pyval\<close> has a method \<open>splitlines\<close>.
\<close>

definition media_parse :: "pyval \<Rightarrow> error + (pystr \<times> pystr) list" where
  "media_parse d =
     (case d of
        PStr text \<Rightarrow> media_loop [] (splitlines text)
      | _ \<Rightarrow> Inl (AttributeError ''splitlines''))"

definition media_get ::
  "collaborators \<Rightarrow> pystr \<Rightarrow> state \<Rightarrow> (error + (pystr \<times> pystr) list) \<times> state" where
  "media_get env doi st =
     (let (r, st') = r_get env (request_factory (self st)) (ustr ''media/'' @ doi) None st
      in if code r = 200 then (media_parse (data r), st')
         else (Inl (raise_api env r), st'))"

text \<open>
  The body \<open>media_post\<close> sends (line 209). \<open>media\<close> is a dictionary from strings to
  strings, given as its items in iteration order; \<open>'%s=%s' % (k, v)\<close> is then
  \<open>k + '=' + v\<close>.
\<close>

definition media_body :: "(pystr \<times> pystr) list \<Rightarrow> pystr" where
  "media_body media = str_join CRLF (map (\<lambda>(k, v). k @ ustr ''='' @ v) media)"

definition media_post ::
  "collaborators \<Rightarrow> pystr \<Rightarrow> (pystr \<times> pystr) list \<Rightarrow> state \<Rightarrow> (error + pyval) \<times> state" where
  "media_post env doi media st =
     (let headers = [(ustr ''Content-Type'', ustr ''text/plain;charset=UTF-8'')];
          body = media_body media;
          (r, st') = r_post env (request_factory (self st)) (ustr ''media/'' @ doi)
                       (Some body) (Some headers) st
      in if code r = 200 then (Inr (data r), st')
         else (Inl (raise_api env r), st'))"


subsection \<open>The propagation policy, and example collaborators\<close>

text \<open>
  The spec's propagation policy (section 7) for one call that started in \<open>st\<close> and ended
  with \<open>out\<close>: the call left the client as it was and added exactly \<open>n\<close> requests
  to the log; and for each request it made, if the response status is not the success
  status \<open>ok\<close> of the operation, the call raised the classified error that carries this
  status code and this response body.
\<close>

definition propagates ::
  "collaborators \<Rightarrow> int \<Rightarrow> nat \<Rightarrow> state \<Rightarrow> (error + 'a) \<times> state \<Rightarrow> bool" where
  "propagates env ok n st out =
     (let new = drop (length (sent st)) (sent (snd out))
      in snd out = st\<lparr> sent := sent st @ new \<rparr> \<and> length new = n \<and>
         list_all (\<lambda>req. let r = transport env req
                         in code r \<noteq> ok \<longrightarrow>
                              fst out = Inl (DataCiteError (classify env (code r) (data r))
                                               (code r) (data r))) new)"

text \<open>
  A client with the prefix \<open>10.1234\<close>, one built with every default (no prefix), and a
  remote service that answers every request with the same response, for the scenarios of
  the spec. The example classification knows 404 as NotFound (the spec's scenario) and
  leaves every other code to the catch-all.
\<close>

definition example_client :: client where
  "example_client =
     \<lparr> username = Some (ustr ''user''), password = Some (ustr ''secret''),
       prefix = Some (ustr ''10.1234''), api_ver = ustr ''2'',
       api_url = ustr ''https://api.datacite.org/'', timeout = None \<rparr>"

definition default_client :: client where
  "default_client =
     \<lparr> username = None, password = None, prefix = None, api_ver = ustr ''2'',
       api_url = ustr ''https://api.datacite.org/'', timeout = None \<rparr>"

definition example_classify :: "int \<Rightarrow> pyval \<Rightarrow> api_kind" where
  "example_classify err_code body = (if err_code = 404 then NotFound else UnknownAPIError)"

definition answering :: "int \<Rightarrow> pyval \<Rightarrow> collaborators" where
  "answering status body =
     \<lparr> transport = (\<lambda>req. \<lparr> code = status, data = body \<rparr>), classify = example_classify \<rparr>"

definition fresh :: "client \<Rightarrow> state" where
  "fresh c = \<lparr> self = c, sent = [] \<rparr>"

text \<open>The JSON document \<open>{"data": {"attributes": {"url": "http://x.org"}}}\<close>, decoded.\<close>

definition resolve_document :: pyval where
  "resolve_document =
     PDict [(ustr ''data'',
             PDict [(ustr ''attributes'', PDict [(ustr ''url'', PStr (ustr ''http://x.org''))])])]"

section \<open>Properties\<close>

subsection \<open>Construction: the base URL\<close>

text \<open>
  C7, as stated, at a concrete input: a base URL given with two trailing separators is
  kept as it is, so the internal base does not end in exactly one \<open>/\<close>.
\<close>

theorem init_base_url_counterexample:
  "map_sum id api_url
     (init None None (Some (ustr ''https://example.org//'')) None False (ustr ''2'') None)
     = Inr (ustr ''https://example.org//'')
   \<and> \<not> single_trailing_slash (ustr ''https://example.org//'')"
  by (simp add: init_def single_trailing_slash_def ustr_def)

text \<open>
  C7, amended. Construction never fails, and the internal base URL is not empty and ends
  in \<open>/\<close>. For an explicit, non-empty base URL outside test mode it is the argument
  itself when that already ends in \<open>/\<close>, and the argument followed by one \<open>/\<close>
  otherwise: the separator is appended only when missing and is never added to a URL that
  has one. Normalisation is idempotent: constructing again from the internal base URL
  yields the same internal base URL.
\<close>

theorem init_base_url:
  "\<exists>c. init un pw url pf tm av to = Inr c
       \<and> api_url c \<noteq> [] \<and> last (api_url c) = 47
       \<and> (\<forall>u. \<not> tm \<and> url = Some u \<and> u \<noteq> [] \<longrightarrow>
              api_url c = (if last u = 47 then u else u @ ustr ''/''))
       \<and> map_sum id api_url (init un pw (Some (api_url c)) pf False av to) = Inr (api_url c)"
proof -
  define chosen where "chosen =
    (if tm then ustr ''https://api.test.datacite.org/''
     else (case url of None \<Rightarrow> ustr ''https://api.datacite.org/''
           | Some u \<Rightarrow> if u \<noteq> [] then u else ustr ''https://api.datacite.org/''))"
  have ne: "chosen \<noteq> []"
    by (simp add: chosen_def ustr_def split: option.split)
  define base where "base = (if last chosen \<noteq> 47 then chosen @ ustr ''/'' else chosen)"
  have base_ne: "base \<noteq> []" and base_last: "last base = 47"
    using ne by (simp_all add: base_def ustr_def)
  have run: "init un pw url pf tm av to =
      Inr \<lparr> username = un, password = pw, prefix = pf, api_ver = av, api_url = base,
            timeout = to \<rparr>"
    using ne by (simp add: init_def chosen_def base_def Let_def)
  have keep: "\<forall>u. \<not> tm \<and> url = Some u \<and> u \<noteq> [] \<longrightarrow>
      base = (if last u = 47 then u else u @ ustr ''/'')"
    by (auto simp: base_def chosen_def)
  have again: "map_sum id api_url (init un pw (Some base) pf False av to) = Inr base"
    using base_ne base_last by (simp add: init_def Let_def)
  show ?thesis
    using run base_ne base_last keep again by simp
qed

text \<open>
  C7, the two constructions of the spec: the base URL \<open>https://example.org\<close> gives the
  internal base \<open>https://example.org/\<close>, and \<open>https://example.org/\<close> gives the same.
\<close>

theorem init_base_url_witness:
  "map_sum id api_url
     (init None None (Some (ustr ''https://example.org'')) None False (ustr ''2'') None)
     = Inr (ustr ''https://example.org/'')
   \<and> map_sum id api_url
     (init None None (Some (ustr ''https://example.org/'')) None False (ustr ''2'') None)
     = Inr (ustr ''https://example.org/'')"
  using init_base_url [of None None "Some (ustr ''https://example.org'')" None False
      "ustr ''2''" None]
    init_base_url [of None None "Some (ustr ''https://example.org/'')" None False
      "ustr ''2''" None]
  by (auto simp: ustr_def)


subsection \<open>Media: the wire format\<close>

text \<open>How \<open>splitlines\<close> reads text that was joined with CRLF.\<close>

lemma splitlines_from_plain:
  "list_all (\<lambda>c. \<not> is_linebreak c) l \<Longrightarrow>
     splitlines_from cur (l @ rest) = splitlines_from (cur @ l) rest"
  by (induction l arbitrary: cur) simp_all

lemma splitlines_from_CRLF:
  "splitlines_from cur (CRLF @ rest) = cur # splitlines_from [] rest"
  by (simp add: CRLF_def is_linebreak_def)

lemma splitlines_from_line_CRLF:
  "list_all (\<lambda>c. \<not> is_linebreak c) l \<Longrightarrow>
     splitlines_from [] (l @ CRLF @ rest) = l # splitlines_from [] rest"
  by (simp add: splitlines_from_plain splitlines_from_CRLF)

lemma splitlines_from_last_line:
  "list_all (\<lambda>c. \<not> is_linebreak c) l \<Longrightarrow> l \<noteq> [] \<Longrightarrow> splitlines_from [] l = [l]"
  using splitlines_from_plain [of l "[]" "[]"] by simp

lemma splitlines_str_join:
  "list_all (\<lambda>l. l \<noteq> [] \<and> list_all (\<lambda>c. \<not> is_linebreak c) l) ls \<Longrightarrow>
     splitlines (str_join CRLF ls) = ls"
  unfolding splitlines_def
proof (induction CRLF ls rule: str_join.induct)
  case 1
  then show ?case by simp
next
  case (2 x)
  then show ?case by (simp add: splitlines_from_last_line)
next
  case (3 x y ys)
  then show ?case by (simp add: splitlines_from_line_CRLF)
qed

text \<open>\<open>split('=', 1)\<close> with and without a separator in the line.\<close>

lemma split1_absent: "sep \<notin> set s \<Longrightarrow> split1 sep s = [s]"
proof -
  assume "sep \<notin> set s"
  then have "dropWhile (\<lambda>c. c \<noteq> sep) s = []"
    by auto
  then show ?thesis
    unfolding split1_def by (simp only: list.case)
qed

lemma split1_present:
  "sep \<in> set s \<Longrightarrow>
     split1 sep s = [takeWhile (\<lambda>c. c \<noteq> sep) s, tl (dropWhile (\<lambda>c. c \<noteq> sep) s)]"
proof -
  assume "sep \<in> set s"
  then have "dropWhile (\<lambda>c. c \<noteq> sep) s \<noteq> []"
    by (simp add: dropWhile_eq_Nil_conv)
  then show ?thesis
    by (cases "dropWhile (\<lambda>c. c \<noteq> sep) s") (simp_all add: split1_def)
qed

lemma split1_pair:
  "sep \<notin> set k \<Longrightarrow> split1 sep (k @ sep # v) = [k, v]"
proof -
  assume k: "sep \<notin> set k"
  then have "dropWhile (\<lambda>c. c \<noteq> sep) (k @ sep # v) = sep # v"
    by (induction k) auto
  moreover from k have "takeWhile (\<lambda>c. c \<noteq> sep) (k @ sep # v) = k"
    by (induction k) auto
  ultimately show ?thesis
    unfolding split1_def by (simp only: list.case)
qed

lemma update_fresh:
  "k \<notin> fst ` set al \<Longrightarrow> AList.update k v al = al @ [(k, v)]"
  by (induction al) auto

lemma media_loop_items:
  "distinct (map fst (acc @ media)) \<Longrightarrow> list_all (\<lambda>(k, v). 61 \<notin> set k) media \<Longrightarrow>
     media_loop acc (map (\<lambda>(k, v). k @ ustr ''='' @ v) media) = Inr (acc @ media)"
proof (induction media arbitrary: acc)
  case Nil
  then show ?case by simp
next
  case (Cons kv media)
  obtain k v where kv: "kv = (k, v)" by (cases kv)
  from Cons.prems have fresh: "k \<notin> fst ` set acc" and noeq: "61 \<notin> set k"
    by (auto simp: kv)
  have line: "split1 61 (k @ ustr ''='' @ v) = [k, v]"
    using noeq by (simp add: ustr_def split1_pair)
  have "distinct (map fst ((acc @ [(k, v)]) @ media))"
    using Cons.prems(1) by (simp add: kv)
  moreover have "list_all (\<lambda>(k, v). 61 \<notin> set k) media"
    using Cons.prems(2) by simp
  ultimately have "media_loop (acc @ [(k, v)]) (map (\<lambda>(k, v). k @ ustr ''='' @ v) media)
      = Inr ((acc @ [(k, v)]) @ media)"
    by (rule Cons.IH)
  then show ?case
    by (simp add: kv line update_fresh [OF fresh])
qed


text \<open>
  C6. A media mapping is given by its items (distinct keys). If no key contains \<open>=\<close>
  and no key or value contains a line-break character, then parsing the body that
  \<open>media_post\<close> sends for the mapping, the way \<open>media_get\<close> parses a response body,
  yields the mapping itself, item for item. Values may contain \<open>=\<close>.
\<close>

theorem media_roundtrip:
  assumes "distinct (map fst media)"
    and "list_all (\<lambda>(k, v). 61 \<notin> set k \<and> list_all (\<lambda>c. \<not> is_linebreak c) k
           \<and> list_all (\<lambda>c. \<not> is_linebreak c) v) media"
  shows "media_parse (PStr (media_body media)) = Inr media"
proof -
  have eq_plain: "\<not> is_linebreak 61"
    by (simp add: is_linebreak_def)
  have lines: "list_all (\<lambda>l. l \<noteq> [] \<and> list_all (\<lambda>c. \<not> is_linebreak c) l)
      (map (\<lambda>(k, v). k @ ustr ''='' @ v) media)"
    using assms(2) eq_plain by (auto simp: list_all_iff ustr_def)
  have keys: "list_all (\<lambda>(k, v). 61 \<notin> set k) media"
    using assms(2) by (auto simp: list_all_iff)
  have "media_loop [] (map (\<lambda>(k, v). k @ ustr ''='' @ v) media) = Inr ([] @ media)"
    using assms(1) keys by (intro media_loop_items) simp_all
  then show ?thesis
    by (simp add: media_parse_def media_body_def splitlines_str_join [OF lines])
qed

text \<open>
  C6 at the mapping of the spec, and at a mapping whose URL contains \<open>=\<close>.
\<close>

theorem media_roundtrip_witness:
  "media_parse (PStr (media_body
      [(ustr ''text/plain'', ustr ''http://example.org/a''),
       (ustr ''application/pdf'', ustr ''http://example.org/b'')]))
   = Inr [(ustr ''text/plain'', ustr ''http://example.org/a''),
          (ustr ''application/pdf'', ustr ''http://example.org/b'')]
   \<and> media_parse (PStr (media_body [(ustr ''text/html'', ustr ''http://example.org/c?x=1'')]))
   = Inr [(ustr ''text/html'', ustr ''http://example.org/c?x=1'')]"
  using media_roundtrip [of "[(ustr ''text/plain'', ustr ''http://example.org/a''),
                              (ustr ''application/pdf'', ustr ''http://example.org/b'')]"]
    media_roundtrip [of "[(ustr ''text/html'', ustr ''http://example.org/c?x=1'')]"]
  by (simp add: ustr_def is_linebreak_def)

subsection \<open>Media: malformed lines\<close>

lemma media_loop_malformed:
  "\<not> list_all (\<lambda>l. 61 \<in> set l) lines \<Longrightarrow> media_loop acc lines = Inl ValueError"
proof (induction lines arbitrary: acc)
  case Nil
  then show ?case by simp
next
  case (Cons l lines)
  show ?case
  proof (cases "61 \<in> set l")
    case True
    with Cons.prems have "\<not> list_all (\<lambda>l. 61 \<in> set l) lines" by simp
    then show ?thesis
      using True by (simp add: split1_present Cons.IH)
  next
    case False
    then show ?thesis by (simp add: split1_absent)
  qed
qed

lemma media_loop_wellformed:
  "list_all (\<lambda>l. 61 \<in> set l) lines \<Longrightarrow> \<exists>m. media_loop acc lines = Inr m"
proof (induction lines arbitrary: acc)
  case Nil
  then show ?case by simp
next
  case (Cons l lines)
  then show ?case by (simp add: split1_present)
qed

lemma media_get_200:
  "transport env (last (sent (snd (media_get env doi st)))) = \<lparr> code = 200, data = d \<rparr> \<Longrightarrow>
     fst (media_get env doi st) = media_parse d"
  by (simp add: media_get_def r_get_def perform_def Let_def split: if_splits)

text \<open>
  C10. When the response to the request of \<open>media_get\<close> has status 200 and a text
  body: if some line of the body has no \<open>=\<close>, the call raises \<open>ValueError\<close> (the
  unpacking error) and returns no mapping; and a mapping is returned exactly when every line
  contains \<open>=\<close>.
\<close>

theorem media_get_malformed:
  assumes "transport env (last (sent (snd (media_get env doi st))))
             = \<lparr> code = 200, data = PStr text \<rparr>"
  shows "((\<exists>l \<in> set (splitlines text). 61 \<notin> set l) \<longrightarrow>
            fst (media_get env doi st) = Inl ValueError)
       \<and> ((\<exists>m. fst (media_get env doi st) = Inr m) \<longleftrightarrow>
            (\<forall>l \<in> set (splitlines text). 61 \<in> set l))"
proof -
  have run: "fst (media_get env doi st) = media_loop [] (splitlines text)"
    using media_get_200 [OF assms] by (simp add: media_parse_def)
  show ?thesis
  proof (cases "list_all (\<lambda>l. 61 \<in> set l) (splitlines text)")
    case True
    then show ?thesis
      using media_loop_wellformed [of "splitlines text" "[]"] run
      by (simp add: list_all_iff)
  next
    case False
    then show ?thesis
      using media_loop_malformed [of "splitlines text" "[]"] run
      by (simp add: list_all_iff)
  qed
qed

text \<open>
  C10 at the body of the two lines \<open>a=b\<close> and \<open>cd\<close>: the first line is well formed, the
  second has no separator, and the call raises.
\<close>

theorem media_get_malformed_witness:
  "fst (media_get (answering 200 (PStr (ustr ''a=b'' @ [10] @ ustr ''cd''))) (ustr ''10.1234/x'')
          (fresh example_client)) = Inl ValueError
   \<and> (\<exists>l \<in> set (splitlines (ustr ''a=b'' @ [10] @ ustr ''cd'')). 61 \<notin> set l)"
  using media_get_malformed [of "answering 200 (PStr (ustr ''a=b'' @ [10] @ ustr ''cd''))"
      "ustr ''10.1234/x''" "fresh example_client" "ustr ''a=b'' @ [10] @ ustr ''cd''"]
  by (simp add: answering_def splitlines_def ustr_def is_linebreak_def)

subsection \<open>Draft minting\<close>

text \<open>
  Whatever lines 91 to 101 do, \<open>draft_doi\<close> raises: their exception, or the
  \<open>NameError\<close> of line 103. The client and the log are as before.
\<close>

lemma draft_doi_raises:
  "draft_doi env new_doi st =
     (Inl (case draft_doi_locals (self st) new_doi of
             Inl e \<Rightarrow> e
           | Inr _ \<Rightarrow> NameError ''location''), st)"
  by (simp add: draft_doi_def global_location_def split: sum.splits prod.splits)

text \<open>
  C1 at the client with prefix \<open>10.1234\<close> and the DOI \<open>10.9999/abc\<close>, whose prefix
  segment is \<open>10.9999\<close>: the call sends nothing, but what it raises is the
  \<open>UnboundLocalError\<close> of reading \<open>doi\<close> in line 95, not the \<open>ValueError\<close> of
  line 98, which is never reached.
\<close>

theorem draft_doi_wrong_prefix:
  "draft_doi (answering 201 PNone) (Some (ustr ''10.9999/abc'')) (fresh example_client)
     = (Inl (UnboundLocalError ''doi''), fresh example_client)
   \<and> prefix example_client = Some (ustr ''10.1234'')
   \<and> split_all 47 (ustr ''10.9999/abc'') = [ustr ''10.9999'', ustr ''abc'']"
  by (simp add: draft_doi_raises draft_doi_locals_def load_fast_def fresh_def
      example_client_def split_all_def ustr_def)

text \<open>
  C2, as stated, at the client that \<open>__init__\<close> builds from its defaults (no prefix)
  and the suffix \<open>abc\<close>: the call raises \<open>TypeError\<close> in line 100
  (\<open>None + '/'\<close>), which is not a \<open>NameError\<close>.
\<close>

theorem draft_doi_no_prefix_counterexample:
  "init None None None None False (ustr ''2'') None = Inr default_client
   \<and> draft_doi (answering 201 PNone) (Some (ustr ''abc'')) (fresh default_client)
     = (Inl TypeError, fresh default_client)
   \<and> \<not> is_NameError TypeError"
  by (simp add: init_def draft_doi_raises draft_doi_locals_def fresh_def default_client_def
      ustr_def)

text \<open>
  C2, amended. Every call of \<open>draft_doi\<close> raises an exception before any request is
  made, and leaves the client and the log as they were; it never returns a result. The
  exception is \<open>TypeError\<close> when the client has no prefix and the suffix is a non-empty
  string without \<open>/\<close>; otherwise it is the \<open>UnboundLocalError\<close> (a \<open>NameError\<close>)
  for \<open>doi\<close> when the suffix contains \<open>/\<close>, and the \<open>NameError\<close> for
  \<open>location\<close> in every other case.
\<close>

theorem draft_doi_always_raises:
  "snd (draft_doi env new_doi st) = st
   \<and> (\<exists>e. fst (draft_doi env new_doi st) = Inl e
         \<and> (if (\<exists>nd. new_doi = Some nd \<and> nd \<noteq> [] \<and> 47 \<notin> set nd) \<and> prefix (self st) = None
            then e = TypeError
            else if (\<exists>nd. new_doi = Some nd \<and> 47 \<in> set nd)
              then e = UnboundLocalError ''doi''
              else e = NameError ''location''))"
proof (cases new_doi)
  case None
  then show ?thesis
    by (simp add: draft_doi_raises draft_doi_locals_def)
next
  case (Some nd)
  show ?thesis
  proof (cases "prefix (self st)")
    case None
    then show ?thesis
      using Some by (auto simp: draft_doi_raises draft_doi_locals_def load_fast_def)
  next
    case (Some p)
    then show ?thesis
      using \<open>new_doi = Some nd\<close>
      by (auto simp: draft_doi_raises draft_doi_locals_def load_fast_def)
  qed
qed

text \<open>C2 at the call without a suffix, on the client with prefix \<open>10.1234\<close>.\<close>

theorem draft_doi_always_raises_witness:
  "draft_doi (answering 201 PNone) None (fresh example_client)
     = (Inl (NameError ''location''), fresh example_client)"
  using draft_doi_always_raises [of "answering 201 PNone" None "fresh example_client"]
  by (cases "draft_doi (answering 201 PNone) None (fresh example_client)") simp

text \<open>
  C3 at the client with prefix \<open>10.1234\<close>: the bare suffix \<open>abc\<close> and the
  fully-qualified \<open>10.1234/abc\<close> both fail, with different exceptions, and neither sends
  a request, so no composed identifier reaches the service.
\<close>

theorem draft_doi_suffix_and_full:
  "draft_doi (answering 201 PNone) (Some (ustr ''abc'')) (fresh example_client)
     = (Inl (NameError ''location''), fresh example_client)
   \<and> draft_doi (answering 201 PNone) (Some (ustr ''10.1234/abc'')) (fresh example_client)
     = (Inl (UnboundLocalError ''doi''), fresh example_client)
   \<and> sent (fresh example_client) = []"
  by (simp add: draft_doi_raises draft_doi_locals_def load_fast_def fresh_def
      example_client_def ustr_def)

subsection \<open>Resolving a DOI\<close>

text \<open>
  C4 at the response of the spec, status 200 with the decoded JSON document
  \<open>{"data": {"attributes": {"url": "http://x.org"}}}\<close> as \<open>r.data\<close>: the lookup
  \<open>r.data['attributes']\<close> raises \<open>KeyError\<close>, since the only key of the document is
  \<open>data\<close>. If the transport hands the body over as text, the same lookup raises
  \<open>TypeError\<close>. The URL is returned only when \<open>r.data\<close> is the resource object itself,
  the value under \<open>data\<close>.
\<close>

theorem doi_get_enveloped:
  "fst (doi_get (answering 200 resolve_document) (ustr ''10.1234/abc'') (fresh example_client))
     = Inl (KeyError (ustr ''attributes''))
   \<and> fst (doi_get (answering 200 (PStr raw)) doi st) = Inl TypeError
   \<and> fst (doi_get (answering 200
              (PDict [(ustr ''attributes'', PDict [(ustr ''url'', PStr u)])])) doi st)
     = Inr (PStr u)"
  by (simp add: doi_get_def r_get_def perform_def answering_def resolve_document_def ustr_def)

subsection \<open>Status codes\<close>

text \<open>The one request an operation makes, and what it does with a status that is not its success status.\<close>

lemma perform_log:
  "perform env r m u b h st =
     (transport env \<lparr> requester = r, req_method = m, req_url = u, req_body = b, req_headers = h \<rparr>,
      st\<lparr> sent := sent st @
         [\<lparr> requester = r, req_method = m, req_url = u, req_body = b, req_headers = h \<rparr>] \<rparr>)"
  by (simp add: perform_def Let_def)

lemma propagates_one:
  assumes "snd out = st\<lparr> sent := sent st @ [req] \<rparr>"
    and "code (transport env req) \<noteq> ok \<Longrightarrow>
           fst out = Inl (raise_api env (transport env req))"
  shows "propagates env ok 1 st out"
  using assms by (auto simp: propagates_def raise_api_def factory_def Let_def)

lemma propagates_none:
  "snd out = st \<Longrightarrow> propagates env ok 0 st out"
  by (simp add: propagates_def)

lemma doi_get_propagates: "propagates env 200 1 st (doi_get env doi st)"
  by (rule propagates_one [where req = "\<lparr> requester = request_factory (self st),
        req_method = GET, req_url = ustr ''dois/'' @ doi, req_body = None, req_headers = None \<rparr>"])
     (simp_all add: doi_get_def r_get_def perform_log split: sum.splits)

lemma draft_doi_propagates: "propagates env 201 0 st (draft_doi env new_doi st)"
  by (rule propagates_none) (simp add: draft_doi_raises)

lemma doi_post_propagates: "propagates env 201 1 st (doi_post env new_doi location st)"
  by (rule propagates_one [where req = "\<lparr> requester = request_factory (self st),
        req_method = POST, req_url = ustr ''doi'',
        req_body = Some (str_join CRLF [ustr ''doi='' @ percent_s (Some new_doi),
                                        ustr ''url='' @ percent_s (Some location)]),
        req_headers = Some [(ustr ''Content-Type'', ustr ''text/plain;charset=UTF-8'')] \<rparr>"])
     (simp_all add: doi_post_def r_post_def perform_log Let_def)

lemma metadata_get_propagates: "propagates env 200 1 st (metadata_get env doi st)"
  by (rule propagates_one [where req = "\<lparr> requester = request_factory (self st),
        req_method = GET, req_url = ustr ''metadata/'' @ doi, req_body = None,
        req_headers = Some [(ustr ''Accept'', ustr ''application/xml''),
                            (ustr ''Accept-Encoding'', ustr ''UTF-8'')] \<rparr>"])
     (simp_all add: metadata_get_def r_get_def perform_log Let_def)

lemma metadata_post_propagates: "propagates env 201 1 st (metadata_post env metadata st)"
  by (rule propagates_one [where req = "\<lparr> requester = request_factory (self st),
        req_method = POST, req_url = ustr ''metadata'', req_body = Some metadata,
        req_headers = Some [(ustr ''Content-Type'', ustr ''application/xml;charset=UTF-8'')] \<rparr>"])
     (simp_all add: metadata_post_def r_post_def perform_log Let_def)

lemma metadata_delete_propagates: "propagates env 200 1 st (metadata_delete env doi st)"
  by (rule propagates_one [where req = "\<lparr> requester = request_factory (self st),
        req_method = DELETE, req_url = ustr ''metadata/'' @ doi, req_body = None,
        req_headers = None \<rparr>"])
     (simp_all add: metadata_delete_def r_delete_def perform_log)

lemma media_get_propagates: "propagates env 200 1 st (media_get env doi st)"
  by (rule propagates_one [where req = "\<lparr> requester = request_factory (self st),
        req_method = GET, req_url = ustr ''media/'' @ doi, req_body = None,
        req_headers = None \<rparr>"])
     (simp_all add: media_get_def r_get_def perform_log)

lemma media_post_propagates: "propagates env 200 1 st (media_post env doi media st)"
  by (rule propagates_one [where req = "\<lparr> requester = request_factory (self st),
        req_method = POST, req_url = ustr ''media/'' @ doi, req_body = Some (media_body media),
        req_headers = Some [(ustr ''Content-Type'', ustr ''text/plain;charset=UTF-8'')] \<rparr>"])
     (simp_all add: media_post_def r_post_def perform_log Let_def)

text \<open>
  C5. Each operation that reaches the transport makes exactly one request and leaves the
  client unchanged; if the status of the response is not the success status of the
  operation (200 for \<open>doi_get\<close>, \<open>metadata_get\<close>, \<open>metadata_delete\<close>,
  \<open>media_get\<close> and \<open>media_post\<close>; 201 for \<open>doi_post\<close> and \<open>metadata_post\<close>),
  the operation raises the classified error carrying that status code and the response
  body, so no such status gives a normal return and no request is repeated.
  \<open>draft_doi\<close> makes no request at all, so the transport never returns a status to it.
\<close>

theorem failures_propagate:
  "propagates env 200 1 st (doi_get env doi st)
   \<and> propagates env 201 0 st (draft_doi env new_doi st)
   \<and> propagates env 201 1 st (doi_post env doi location st)
   \<and> propagates env 200 1 st (metadata_get env doi st)
   \<and> propagates env 201 1 st (metadata_post env metadata st)
   \<and> propagates env 200 1 st (metadata_delete env doi st)
   \<and> propagates env 200 1 st (media_get env doi st)
   \<and> propagates env 200 1 st (media_post env doi media st)"
  by (intro conjI doi_get_propagates draft_doi_propagates doi_post_propagates
      metadata_get_propagates metadata_post_propagates metadata_delete_propagates
      media_get_propagates media_post_propagates)

text \<open>
  C5 at the scenario of the spec: the service answers the metadata fetch with status 404;
  the call raises the NotFound error carrying 404 and the body, after one request.
\<close>

theorem failures_propagate_witness:
  "fst (metadata_get (answering 404 (PStr (ustr ''not found''))) (ustr ''10.1234/abc'')
          (fresh example_client))
     = Inl (DataCiteError NotFound 404 (PStr (ustr ''not found'')))
   \<and> length (sent (snd (metadata_get (answering 404 (PStr (ustr ''not found'')))
          (ustr ''10.1234/abc'') (fresh example_client)))) = 1"
  using failures_propagate [of "answering 404 (PStr (ustr ''not found''))"
      "fresh example_client" "ustr ''10.1234/abc''" None "[]" "[]" "[]"]
  by (simp add: propagates_def Let_def answering_def example_classify_def fresh_def
      list_all_length)

text \<open>
  C9. Every operation, whether it returns or raises, leaves the client configuration
  (\<open>username\<close>, \<open>password\<close>, \<open>prefix\<close>, \<open>api_ver\<close>, \<open>api_url\<close>, \<open>timeout\<close>)
  as it was.
\<close>

theorem config_unchanged:
  "self (snd (doi_get env doi st)) = self st
   \<and> self (snd (draft_doi env new_doi st)) = self st
   \<and> self (snd (doi_post env doi location st)) = self st
   \<and> self (snd (metadata_get env doi st)) = self st
   \<and> self (snd (metadata_post env metadata st)) = self st
   \<and> self (snd (metadata_delete env doi st)) = self st
   \<and> self (snd (media_get env doi st)) = self st
   \<and> self (snd (media_post env doi media st)) = self st"
proof -
  have one: "self (snd out) = self st" if "propagates env ok n st out"
    for ok n and out :: "(error + 'a) \<times> state"
  proof -
    from that have "snd out = st\<lparr> sent := sent st @ drop (length (sent st)) (sent (snd out)) \<rparr>"
      by (simp add: propagates_def Let_def)
    then have "self (snd out)
        = self (st\<lparr> sent := sent st @ drop (length (sent st)) (sent (snd out)) \<rparr>)"
      by (rule arg_cong)
    then show ?thesis by simp
  qed
  show ?thesis
    by (intro conjI one [OF doi_get_propagates] one [OF draft_doi_propagates]
        one [OF doi_post_propagates] one [OF metadata_get_propagates]
        one [OF metadata_post_propagates] one [OF metadata_delete_propagates]
        one [OF media_get_propagates] one [OF media_post_propagates])
qed

subsection \<open>The legacy mint operation\<close>

text \<open>
  C8. \<open>doi_post\<close> makes one POST request to \<open>doi\<close> with the content type
  \<open>text/plain;charset=UTF-8\<close> and the body \<open>doi=<doi>\<close>, CR LF, \<open>url=<location>\<close>.
  On status 201 it returns the response body as it is, whatever it says; on any other
  status it raises the classified error for that status and body.
\<close>

theorem doi_post_wire:
  "\<exists>req. snd (doi_post env new_doi location st) = st\<lparr> sent := sent st @ [req] \<rparr>
     \<and> req_method req = POST \<and> req_url req = ustr ''doi''
     \<and> req_headers req = Some [(ustr ''Content-Type'', ustr ''text/plain;charset=UTF-8'')]
     \<and> req_body req = Some (ustr ''doi='' @ new_doi @ [13, 10] @ ustr ''url='' @ location)
     \<and> fst (doi_post env new_doi location st)
         = (if code (transport env req) = 201 then Inr (data (transport env req))
            else Inl (DataCiteError
                        (classify env (code (transport env req)) (data (transport env req)))
                        (code (transport env req)) (data (transport env req))))"
proof -
  let ?req = "\<lparr> requester = request_factory (self st), req_method = POST,
      req_url = ustr ''doi'',
      req_body = Some (ustr ''doi='' @ new_doi @ [13, 10] @ ustr ''url='' @ location),
      req_headers = Some [(ustr ''Content-Type'', ustr ''text/plain;charset=UTF-8'')] \<rparr>"
  show ?thesis
    by (rule exI [of _ ?req])
       (simp add: doi_post_def r_post_def perform_log percent_s_def CRLF_def raise_api_def
          Let_def factory_def)
qed

text \<open>
  C8 at the scenario of the spec: status 201 with the body \<open>DOI\<close>, LF, \<open>URL\<close>, LF is
  returned unchanged.
\<close>

theorem doi_post_wire_witness:
  "fst (doi_post (answering 201 (PStr (ustr ''DOI'' @ [10] @ ustr ''URL'' @ [10])))
          (ustr ''10.1234/abc'') (ustr ''http://x.org'') (fresh example_client))
     = Inr (PStr (ustr ''DOI'' @ [10] @ ustr ''URL'' @ [10]))
   \<and> map req_body (sent (snd (doi_post (answering 201 (PStr (ustr ''DOI'' @ [10] @ ustr ''URL'' @ [10])))
          (ustr ''10.1234/abc'') (ustr ''http://x.org'') (fresh example_client))))
     = [Some (ustr ''doi=10.1234/abc'' @ [13, 10] @ ustr ''url=http://x.org'')]"
  using doi_post_wire [of "answering 201 (PStr (ustr ''DOI'' @ [10] @ ustr ''URL'' @ [10]))"
      "ustr ''10.1234/abc''" "ustr ''http://x.org''" "fresh example_client"]
  by (auto simp: answering_def fresh_def ustr_def)


end
